theory Spec2Isabelle
  imports Main
begin

section \<open>Virtual try-on editor: the outfit history store of App.tsx\<close>

text \<open>
  The development embeds the state of the \<^verbatim>\<open>App\<close> component (src/unnamed/part_001)
  and its event handlers, together with \<^verbatim>\<open>getFriendlyErrorMessage\<close>
  (src/unnamed/part_000).  The component state is a record; a handler is a function
  from the state it was rendered with to the state after it has finished, no other
  handler running in between.  The remote image service, the browser's JSON parser,
  the clock and local storage are parameters of the handlers.
\<close>

subsection \<open>JavaScript values the handlers rely on\<close>

text \<open>
  A JavaScript string is truthy when it is present and not empty.  \<open>None\<close> stands
  for \<^verbatim>\<open>undefined\<close> and \<^verbatim>\<open>null\<close>.
\<close>

fun truthy :: "string option \<Rightarrow> bool" where
  "truthy None = False"
| "truthy (Some s) = (s \<noteq> [])"

text \<open>Reading an array at an index: \<^verbatim>\<open>undefined\<close> out of range.\<close>

definition nth_opt :: "'a list \<Rightarrow> nat \<Rightarrow> 'a option" where
  "nth_opt xs i = (if i < length xs then Some (xs ! i) else None)"

text \<open>
  A plain object with string keys that are not array indices keeps its keys in
  insertion order; writing an existing key keeps the key's position.  It is an
  association list with distinct keys.
\<close>

type_synonym js_object = "(string \<times> string) list"

definition obj_get :: "js_object \<Rightarrow> string \<Rightarrow> string option" where
  "obj_get ps k = map_of ps k"

definition obj_set :: "js_object \<Rightarrow> string \<Rightarrow> string \<Rightarrow> js_object" where
  "obj_set ps k v =
     (if map_of ps k = None then ps @ [(k, v)]
      else map (\<lambda>(k', v'). if k' = k then (k', v) else (k', v')) ps)"

text \<open>\<^verbatim>\<open>Object.values(o)[0]\<close>\<close>

fun first_value :: "js_object \<Rightarrow> string option" where
  "first_value [] = None"
| "first_value ((k, v) # ps) = Some v"

text \<open>\<^verbatim>\<open>String.prototype.includes\<close>: the argument occurs as a contiguous part.\<close>

fun includes_str :: "string \<Rightarrow> string \<Rightarrow> bool" where
  "includes_str [] sub = (sub = [])"
| "includes_str (c # cs) sub = (take (length sub) (c # cs) = sub \<or> includes_str cs sub)"

text \<open>
  \<^verbatim>\<open>String.prototype.split\<close> with a separator: \<open>cur\<close> is the piece read so far.
  (With the empty separator JavaScript splits into single characters; the code never
  does that, and the model then returns the whole string as one piece.)
\<close>

fun split_from :: "string \<Rightarrow> string \<Rightarrow> string \<Rightarrow> string list" where
  "split_from sep cur [] = [cur]"
| "split_from sep cur (c # cs) =
     (if sep \<noteq> [] \<and> take (length sep) (c # cs) = sep
      then cur # split_from sep [] (drop (length sep - 1) cs)
      else split_from sep (cur @ [c]) cs)"

definition split_str :: "string \<Rightarrow> string \<Rightarrow> string list" where
  "split_str s sep = split_from sep [] s"

subsection \<open>Error values and the friendly error message (lib/utils)\<close>

text \<open>
  What a rejected promise carries (\<^verbatim>\<open>error: unknown\<close>): an \<^verbatim>\<open>Error\<close> object
  with its message, a string, or any other value, of which the function uses only
  its truthiness and \<^verbatim>\<open>String(error)\<close>.
\<close>

datatype thrown =
    ErrorObject string
  | StringValue string
  | OtherValue bool string

text \<open>
  The result of \<^verbatim>\<open>JSON.parse\<close>, each key of an object listed once.  The parser
  itself is the browser's and is a parameter \<open>parse\<close> below; \<open>None\<close> from it is
  its SyntaxError.
\<close>

datatype json =
    JNull
  | JBool bool
  | JNumber int
  | JString string
  | JArray "json list"
  | JObject "(string \<times> json) list"

text \<open>
  \<^verbatim>\<open>v?.key\<close> for the keys \<^verbatim>\<open>error\<close> and \<^verbatim>\<open>message\<close>: only a parsed object
  can have them (as own properties); on \<^verbatim>\<open>null\<close>, \<^verbatim>\<open>undefined\<close>, a primitive
  or an array the result is \<^verbatim>\<open>undefined\<close>.
\<close>

fun get_prop :: "json option \<Rightarrow> string \<Rightarrow> json option" where
  "get_prop (Some (JObject kvs)) k = map_of kvs k"
| "get_prop _ k = None"

definition rawMessage :: "thrown \<Rightarrow> string" where
  "rawMessage err =
     (case err of
        ErrorObject message \<Rightarrow> message
      | StringValue s \<Rightarrow> s
      | OtherValue is_truthy as_string \<Rightarrow>
          if is_truthy then as_string else ''An unknown error occurred.'')"

definition unsupported_marker :: string where
  "unsupported_marker = ''Unsupported MIME type''"

definition file_type_message :: "string \<Rightarrow> string" where
  "file_type_message mimeType =
     ''File type '' @ [CHR 0x27] @ mimeType @ [CHR 0x27] @
     '' is not supported. Please use a format like PNG, JPEG, or WEBP.''"

definition unsupported_format_message :: string where
  "unsupported_format_message =
     ''Unsupported file format. Please upload an image format like PNG, JPEG, or WEBP.''"

text \<open>\<^verbatim>\<open>nestedMessage.split(': ')[1] || 'unsupported'\<close>\<close>

definition mimeType_of :: "string \<Rightarrow> string" where
  "mimeType_of nestedMessage =
     (case nth_opt (split_str nestedMessage '': '') 1 of
        None \<Rightarrow> ''unsupported''
      | Some piece \<Rightarrow> if piece = [] then ''unsupported'' else piece)"

text \<open>
  Inside the \<^verbatim>\<open>try\<close>: a nested message that is a string containing the marker
  returns the file-type message.  Every other parsed value either is falsy, or is a
  string without the marker, or has no callable \<^verbatim>\<open>includes\<close> or \<^verbatim>\<open>split\<close>
  (a TypeError that the \<^verbatim>\<open>catch\<close> swallows, as it does the parser's SyntaxError);
  all of these fall through to the unsupported-format message.
\<close>

definition getFriendlyErrorMessage :: "(string \<Rightarrow> json option) \<Rightarrow> thrown \<Rightarrow> string \<Rightarrow> string" where
  "getFriendlyErrorMessage parse err context =
     (let raw = rawMessage err in
      if includes_str raw unsupported_marker then
        (case get_prop (get_prop (parse raw) ''error'') ''message'' of
           Some (JString nestedMessage) \<Rightarrow>
             if includes_str nestedMessage unsupported_marker
             then file_type_message (mimeType_of nestedMessage)
             else unsupported_format_message
         | _ \<Rightarrow> unsupported_format_message)
      else context @ ''. '' @ raw)"

subsection \<open>Data model (types.ts)\<close>

text \<open>
  Modelled from the spec: the type declarations of types.ts are not among the sources;
  the fields are those of the spec's data model, as App.tsx reads and writes them.
  The fields \<^verbatim>\<open>id\<close>, \<^verbatim>\<open>name\<close> and \<^verbatim>\<open>url\<close> carry the suffix of their record.
  A \<^verbatim>\<open>File\<close> is an opaque browser object, known by its name only.
\<close>

datatype File = File string

record WardrobeItem =
  id_item :: string
  name_item :: string
  url_item :: string

record OutfitLayer =
  garment :: "WardrobeItem option"
  poseImages :: js_object

record SavedOutfit =
  id_outfit :: string
  thumbnailUrl :: string
  layers :: "OutfitLayer list"
  createdAt :: string

datatype tab = editor | gallery

subsection \<open>The component state (the useState cells of App)\<close>

text \<open>
  The two indices are natural numbers: \<^verbatim>\<open>currentOutfitIndex\<close> starts at 0 and is
  only incremented, or decremented when positive; \<^verbatim>\<open>currentPoseIndex\<close> is 0 or
  the index a pose button has passed, and every number that is not an index of
  \<^verbatim>\<open>POSE_INSTRUCTIONS\<close> reads \<^verbatim>\<open>undefined\<close> there, as a natural number out
  of range does.
\<close>

record AppState =
  modelImageUrl :: "string option"
  outfitHistory :: "OutfitLayer list"
  currentOutfitIndex :: nat
  isLoading :: bool
  loadingMessage :: string
  error :: "string option"
  currentPoseIndex :: nat
  isSheetCollapsed :: bool
  wardrobe :: "WardrobeItem list"
  savedOutfits :: "SavedOutfit list"
  activeTab :: tab

definition POSE_INSTRUCTIONS :: "string list" where
  "POSE_INSTRUCTIONS =
     [''Full frontal view, hands on hips'',
      ''Slightly turned, 3/4 view'',
      ''Side profile view'',
      ''Jumping in the air, mid-action shot'',
      ''Walking towards camera'',
      ''Leaning against a wall'',
      ''Sitting on the floor'']"

text \<open>
  \<^verbatim>\<open>POSE_INSTRUCTIONS[i]\<close> is \<^verbatim>\<open>undefined\<close> out of range, and \<^verbatim>\<open>undefined\<close>
  used as a property key is the key \<^verbatim>\<open>"undefined"\<close>.
\<close>

definition prop_key :: "string option \<Rightarrow> string" where
  "prop_key k = (case k of None \<Rightarrow> ''undefined'' | Some s \<Rightarrow> s)"

definition defaultWardrobe :: "WardrobeItem list" where
  "defaultWardrobe =
     [\<lparr>id_item = ''gemini-sweat'', name_item = ''Dave'' @ [CHR 0x27] @ ''s crush'',
       url_item = ''https://raw.githubusercontent.com/davekg8/Virtual-try-on/refs/heads/main/image/Generated%20Image%20September%2025%2C%202025%20-%2011_39AM.png''\<rparr>,
      \<lparr>id_item = ''gemini-tee'', name_item = ''Love you bibou'',
       url_item = ''https://raw.githubusercontent.com/davekg8/Virtual-try-on/refs/heads/main/image/Generated%20Image%20September%2025%2C%202025%20-%2011_45AM.png''\<rparr>]"

text \<open>The initial values of the useState cells.\<close>

definition initialState :: AppState where
  "initialState =
     \<lparr>modelImageUrl = None, outfitHistory = [], currentOutfitIndex = 0, isLoading = False,
      loadingMessage = [], error = None, currentPoseIndex = 0, isSheetCollapsed = False,
      wardrobe = defaultWardrobe, savedOutfits = [], activeTab = editor\<rparr>"

subsection \<open>Derived values (useMemo)\<close>

definition activeOutfitLayers :: "AppState \<Rightarrow> OutfitLayer list" where
  "activeOutfitLayers s = take (currentOutfitIndex s + 1) (outfitHistory s)"

definition displayImageUrl :: "AppState \<Rightarrow> string option" where
  "displayImageUrl s =
     (if length (outfitHistory s) = 0 then modelImageUrl s
      else case nth_opt (outfitHistory s) (currentOutfitIndex s) of
        None \<Rightarrow> modelImageUrl s
      | Some currentLayer \<Rightarrow>
          let poseInstruction = nth_opt POSE_INSTRUCTIONS (currentPoseIndex s) in
          (case obj_get (poseImages currentLayer) (prop_key poseInstruction) of
             Some img \<Rightarrow> Some img
           | None \<Rightarrow> first_value (poseImages currentLayer)))"

subsection \<open>The external collaborators\<close>

text \<open>
  The image service (services/geminiService), \<^verbatim>\<open>urlToFile\<close> and \<^verbatim>\<open>JSON.parse\<close>
  are parameters: each call either rejects with a thrown value or resolves.  A handler
  reports the requests it has issued.
\<close>

record services =
  JSON_parse :: "string \<Rightarrow> json option"
  generateVirtualTryOnImage :: "string \<Rightarrow> File \<Rightarrow> thrown + string"
  generatePoseVariation :: "string \<Rightarrow> string option \<Rightarrow> thrown + string"
  changeGarmentColor :: "string \<Rightarrow> string \<Rightarrow> string \<Rightarrow> thrown + string"
  urlToFile :: "string \<Rightarrow> string \<Rightarrow> thrown + File"

datatype request =
    TryOnRequest string File
  | PoseRequest string "string option"
  | ColorRequest string string string
  | UrlToFileRequest string string

text \<open>
  An asynchronous handler ends in one of two ways: its promise resolves, with the
  state the component then has, or it rejects with a TypeError raised before any
  state was set (reading a field of \<^verbatim>\<open>undefined\<close>).  \<open>awaited\<close> is the state
  rendered while the external call is in flight, when there is one.
\<close>

datatype exn = TypeError

record outcome =
  calls :: "request list"
  awaited :: "AppState option"
  settled :: "exn + AppState"

definition returned :: "AppState \<Rightarrow> outcome" where
  "returned s = \<lparr>calls = [], awaited = None, settled = Inr s\<rparr>"

definition raised :: "exn \<Rightarrow> outcome" where
  "raised e = \<lparr>calls = [], awaited = None, settled = Inl e\<rparr>"

subsection \<open>Handlers\<close>

definition handleModelFinalized :: "string \<Rightarrow> AppState \<Rightarrow> AppState" where
  "handleModelFinalized url s =
     s\<lparr>modelImageUrl := Some url,
       outfitHistory :=
         [\<lparr>garment = None,
           poseImages = [(prop_key (nth_opt POSE_INSTRUCTIONS 0), url)]\<rparr>],
       currentOutfitIndex := 0\<rparr>"

text \<open>
  The decimal numeral of a template literal \<^verbatim>\<open>${n}\<close>, for the integer
  \<^verbatim>\<open>Date.now()\<close> (milliseconds since the epoch).
\<close>

definition digit_char :: "nat \<Rightarrow> char" where
  "digit_char d = ''0123456789'' ! d"

fun dec :: "nat \<Rightarrow> string" where
  "dec n = (if n < 10 then [digit_char n] else dec (n div 10) @ [digit_char (n mod 10)])"

declare dec.simps [simp del]

text \<open>
  \<open>now\<close> is \<^verbatim>\<open>Date.now()\<close>, \<open>isoString\<close> is \<^verbatim>\<open>new Date().toISOString()\<close>, and
  \<open>stored\<close> tells whether \<^verbatim>\<open>localStorage.setItem\<close> returned rather than threw.
\<close>

definition handleSaveOutfit :: "nat \<Rightarrow> string \<Rightarrow> bool \<Rightarrow> AppState \<Rightarrow> AppState" where
  "handleSaveOutfit now isoString stored s =
     (case displayImageUrl s of
        None \<Rightarrow> s
      | Some thumbnail \<Rightarrow>
          if thumbnail = [] \<or> length (activeOutfitLayers s) \<le> 1 then s
          else
            let newSavedOutfit =
                  \<lparr>id_outfit = ''outfit-'' @ dec now,
                   thumbnailUrl = thumbnail,
                   layers = activeOutfitLayers s,
                   createdAt = isoString\<rparr>;
                updatedOutfits = newSavedOutfit # savedOutfits s
            in s\<lparr>savedOutfits := updatedOutfits,
                 error :=
                   (if stored then error s
                    else Some (''Could not save outfit. Your browser'' @ [CHR 0x27] @
                               ''s storage might be full.'')),
                 activeTab := gallery\<rparr>)"

definition handleGarmentSelect :: "services \<Rightarrow> File \<Rightarrow> WardrobeItem \<Rightarrow> AppState \<Rightarrow> outcome" where
  "handleGarmentSelect sv garmentFile garmentInfo s =
     (case displayImageUrl s of
        None \<Rightarrow> returned s
      | Some shown \<Rightarrow>
          if shown = [] \<or> isLoading s then returned s
          else if (case nth_opt (outfitHistory s) (currentOutfitIndex s + 1) of
                     None \<Rightarrow> False
                   | Some nextLayer \<Rightarrow>
                       map_option id_item (garment nextLayer) = Some (id_item garmentInfo))
          then returned (s\<lparr>currentOutfitIndex := currentOutfitIndex s + 1,
                           currentPoseIndex := 0\<rparr>)
          else
            let busy = s\<lparr>error := None, isLoading := True,
                         loadingMessage := ''Adding '' @ name_item garmentInfo @ ''...''\<rparr>
            in \<lparr>calls = [TryOnRequest shown garmentFile],
                awaited = Some busy,
                settled = Inr
                  (case generateVirtualTryOnImage sv shown garmentFile of
                     Inr newImageUrl \<Rightarrow>
                       let currentPoseInstruction = nth_opt POSE_INSTRUCTIONS (currentPoseIndex s);
                           newLayer = \<lparr>garment = Some garmentInfo,
                                       poseImages = [(prop_key currentPoseInstruction, newImageUrl)]\<rparr>
                       in busy\<lparr>outfitHistory :=
                                  take (currentOutfitIndex s + 1) (outfitHistory busy) @ [newLayer],
                                currentOutfitIndex := currentOutfitIndex busy + 1,
                                wardrobe :=
                                  (case find (\<lambda>item. id_item item = id_item garmentInfo) (wardrobe busy) of
                                     Some item \<Rightarrow> wardrobe busy
                                   | None \<Rightarrow> wardrobe busy @ [garmentInfo]),
                                isLoading := False,
                                loadingMessage := []\<rparr>
                   | Inl err \<Rightarrow>
                       busy\<lparr>error := Some (getFriendlyErrorMessage (JSON_parse sv) err
                                              ''Failed to apply garment''),
                            isLoading := False,
                            loadingMessage := []\<rparr>)\<rparr>)"

text \<open>
  The state updates that \<^verbatim>\<open>handleGarmentSelect\<close> makes when its request has
  resolved, applied to the state \<open>cur\<close> the component has by then.  The indices
  read from \<open>s\<close> are the closure's, those of the render the handler was called in;
  the updater functions (\<^verbatim>\<open>prev => ...\<close>) work on \<open>cur\<close>.  In
  \<open>handleGarmentSelect\<close> above \<open>cur\<close> is the state rendered during the call.
\<close>

definition handleGarmentSelect_resolved ::
  "WardrobeItem \<Rightarrow> AppState \<Rightarrow> string \<Rightarrow> AppState \<Rightarrow> AppState" where
  "handleGarmentSelect_resolved garmentInfo s newImageUrl cur =
     (let currentPoseInstruction = nth_opt POSE_INSTRUCTIONS (currentPoseIndex s);
          newLayer = \<lparr>garment = Some garmentInfo,
                      poseImages = [(prop_key currentPoseInstruction, newImageUrl)]\<rparr>
      in cur\<lparr>outfitHistory :=
                 take (currentOutfitIndex s + 1) (outfitHistory cur) @ [newLayer],
               currentOutfitIndex := currentOutfitIndex cur + 1,
               wardrobe :=
                 (case find (\<lambda>item. id_item item = id_item garmentInfo) (wardrobe cur) of
                    Some item \<Rightarrow> wardrobe cur
                  | None \<Rightarrow> wardrobe cur @ [garmentInfo]),
               isLoading := False,
               loadingMessage := []\<rparr>)"

text \<open>The one handler that is synchronous and does not read \<^verbatim>\<open>isLoading\<close>.\<close>

definition handleRemoveLastGarment :: "AppState \<Rightarrow> AppState" where
  "handleRemoveLastGarment s =
     (if currentOutfitIndex s > 0
      then s\<lparr>currentOutfitIndex := currentOutfitIndex s - 1, currentPoseIndex := 0\<rparr>
      else s)"

text \<open>
  In the three handlers below the history is written at \<open>currentOutfitIndex s\<close> only
  after \<open>nth_opt\<close> has found the layer there, so the index is in range.

  Layers are values here.  In the code \<^verbatim>\<open>handlePoseSelect\<close> and
  \<^verbatim>\<open>handleRegenerateImage\<close> write the new render into the \<^verbatim>\<open>poseImages\<close> object
  of the layer in place, and a saved outfit made earlier from that layer shares the
  object, so that it gains the render too; the \<open>savedOutfits\<close> of the model keep the
  layers as they were when saved.  The properties below read \<open>savedOutfits\<close> only
  in the state that \<open>handleSaveOutfit\<close> returns, where the two agree.
\<close>

definition handlePoseSelect :: "services \<Rightarrow> nat \<Rightarrow> AppState \<Rightarrow> outcome" where
  "handlePoseSelect sv newIndex s =
     (if isLoading s \<or> length (outfitHistory s) = 0 \<or> newIndex = currentPoseIndex s
      then returned s
      else
        let poseInstruction = nth_opt POSE_INSTRUCTIONS newIndex in
        case nth_opt (outfitHistory s) (currentOutfitIndex s) of
          None \<Rightarrow> raised TypeError
        | Some currentLayer \<Rightarrow>
            if truthy (obj_get (poseImages currentLayer) (prop_key poseInstruction))
            then returned (s\<lparr>currentPoseIndex := newIndex\<rparr>)
            else
              (case first_value (poseImages currentLayer) of
                 None \<Rightarrow> returned s
               | Some baseImageForPoseChange \<Rightarrow>
                   if baseImageForPoseChange = [] then returned s
                   else
                     let prevPoseIndex = currentPoseIndex s;
                         busy = s\<lparr>error := None, isLoading := True,
                                  loadingMessage := ''Changing pose...'',
                                  currentPoseIndex := newIndex\<rparr>
                     in \<lparr>calls = [PoseRequest baseImageForPoseChange poseInstruction],
                         awaited = Some busy,
                         settled = Inr
                           (case generatePoseVariation sv baseImageForPoseChange poseInstruction of
                              Inr newImageUrl \<Rightarrow>
                                let updatedLayer = outfitHistory busy ! currentOutfitIndex s
                                in busy\<lparr>outfitHistory :=
                                           (outfitHistory busy)
                                             [currentOutfitIndex s :=
                                                updatedLayer\<lparr>poseImages :=
                                                  obj_set (poseImages updatedLayer)
                                                    (prop_key poseInstruction) newImageUrl\<rparr>],
                                         isLoading := False,
                                         loadingMessage := []\<rparr>
                            | Inl err \<Rightarrow>
                                busy\<lparr>error := Some (getFriendlyErrorMessage (JSON_parse sv) err
                                                       ''Failed to change pose''),
                                     currentPoseIndex := prevPoseIndex,
                                     isLoading := False,
                                     loadingMessage := []\<rparr>)\<rparr>))"

definition handleRegenerateImage :: "services \<Rightarrow> AppState \<Rightarrow> outcome" where
  "handleRegenerateImage sv s =
     (if isLoading s \<or> currentOutfitIndex s = 0 then returned s
      else
        case nth_opt (outfitHistory s) (currentOutfitIndex s) of
          None \<Rightarrow> raised TypeError
        | Some currentLayer \<Rightarrow>
            (case garment currentLayer of
               None \<Rightarrow> returned s
             | Some garmentInfo \<Rightarrow>
                 (case nth_opt (outfitHistory s) (currentOutfitIndex s - 1) of
                    None \<Rightarrow> raised TypeError
                  | Some previousLayer \<Rightarrow>
                      (case first_value (poseImages previousLayer) of
                         None \<Rightarrow> returned s
                       | Some baseModelImage \<Rightarrow>
                           if baseModelImage = [] then returned s
                           else
                             let busy = s\<lparr>error := None, isLoading := True,
                                          loadingMessage :=
                                            ''Regenerating '' @ name_item garmentInfo @ ''...''\<rparr>;
                                 failed = (\<lambda>err.
                                   busy\<lparr>error := Some (getFriendlyErrorMessage (JSON_parse sv) err
                                                          ''Failed to regenerate image''),
                                        isLoading := False,
                                        loadingMessage := []\<rparr>);
                                 fileRequest =
                                   UrlToFileRequest (url_item garmentInfo) (name_item garmentInfo)
                             in
                             (case urlToFile sv (url_item garmentInfo) (name_item garmentInfo) of
                                Inl err \<Rightarrow>
                                  \<lparr>calls = [fileRequest], awaited = Some busy,
                                   settled = Inr (failed err)\<rparr>
                              | Inr garmentFile \<Rightarrow>
                                  \<lparr>calls = [fileRequest, TryOnRequest baseModelImage garmentFile],
                                   awaited = Some busy,
                                   settled = Inr
                                     (case generateVirtualTryOnImage sv baseModelImage garmentFile of
                                        Inr newImageUrl \<Rightarrow>
                                          let currentPoseInstruction =
                                                nth_opt POSE_INSTRUCTIONS (currentPoseIndex s);
                                              updatedLayer = outfitHistory busy ! currentOutfitIndex s
                                          in busy\<lparr>outfitHistory :=
                                                     (outfitHistory busy)
                                                       [currentOutfitIndex s :=
                                                          updatedLayer\<lparr>poseImages :=
                                                            obj_set (poseImages updatedLayer)
                                                              (prop_key currentPoseInstruction)
                                                              newImageUrl\<rparr>],
                                                   isLoading := False,
                                                   loadingMessage := []\<rparr>
                                      | Inl err \<Rightarrow> failed err)\<rparr>)))))"

definition handleChangeColor :: "services \<Rightarrow> string \<Rightarrow> AppState \<Rightarrow> outcome" where
  "handleChangeColor sv newColor s =
     (if isLoading s \<or> currentOutfitIndex s = 0 then returned s
      else
        case nth_opt (outfitHistory s) (currentOutfitIndex s) of
          None \<Rightarrow> raised TypeError
        | Some currentLayer \<Rightarrow>
            (case garment currentLayer of
               None \<Rightarrow> returned s
             | Some garmentInfo \<Rightarrow>
                 (case first_value (poseImages currentLayer) of
                    None \<Rightarrow> returned s
                  | Some baseImageForColorChange \<Rightarrow>
                      if baseImageForColorChange = [] then returned s
                      else
                        let busy = s\<lparr>error := None, isLoading := True,
                                     loadingMessage :=
                                       ''Changing color to '' @ newColor @ ''...''\<rparr>
                        in \<lparr>calls = [ColorRequest baseImageForColorChange
                                        (name_item garmentInfo) newColor],
                            awaited = Some busy,
                            settled = Inr
                              (case changeGarmentColor sv baseImageForColorChange
                                      (name_item garmentInfo) newColor of
                                 Inr newImageUrl \<Rightarrow>
                                   let currentPoseInstruction =
                                         nth_opt POSE_INSTRUCTIONS (currentPoseIndex s);
                                       newLayer =
                                         \<lparr>garment = Some garmentInfo,
                                          poseImages =
                                            [(prop_key currentPoseInstruction, newImageUrl)]\<rparr>
                                   in busy\<lparr>outfitHistory :=
                                              (outfitHistory busy)[currentOutfitIndex s := newLayer],
                                            isLoading := False,
                                            loadingMessage := []\<rparr>
                               | Inl err \<Rightarrow>
                                   busy\<lparr>error := Some (getFriendlyErrorMessage (JSON_parse sv) err
                                                          ''Failed to change color''),
                                        isLoading := False,
                                        loadingMessage := []\<rparr>)\<rparr>)))"

text \<open>The contexts the handlers pass to \<^verbatim>\<open>getFriendlyErrorMessage\<close>.\<close>

definition handler_contexts :: "string list" where
  "handler_contexts =
     [''Failed to apply garment'', ''Failed to change pose'',
      ''Failed to regenerate image'', ''Failed to change color'']"

subsection \<open>Sessions: sequences of user actions\<close>

text \<open>
  The component state once a handler has finished.  A handler whose promise rejects
  has set no state.
\<close>

definition state_after :: "AppState \<Rightarrow> outcome \<Rightarrow> AppState" where
  "state_after s oc = (case settled oc of Inr s' \<Rightarrow> s' | Inl e \<Rightarrow> s)"

datatype action =
    ModelFinalized string
  | GarmentSelect File WardrobeItem
  | RemoveLastGarment
  | PoseSelect nat
  | RegenerateImage
  | ChangeColor string
  | SaveOutfit nat string bool

text \<open>
  One user action, run to completion; each action comes with the answers the
  collaborators give while it runs.
\<close>

fun step :: "services \<times> action \<Rightarrow> AppState \<Rightarrow> AppState" where
  "step (sv, ModelFinalized url) s = handleModelFinalized url s"
| "step (sv, GarmentSelect garmentFile garmentInfo) s =
     state_after s (handleGarmentSelect sv garmentFile garmentInfo s)"
| "step (sv, RemoveLastGarment) s = handleRemoveLastGarment s"
| "step (sv, PoseSelect newIndex) s = state_after s (handlePoseSelect sv newIndex s)"
| "step (sv, RegenerateImage) s = state_after s (handleRegenerateImage sv s)"
| "step (sv, ChangeColor newColor) s = state_after s (handleChangeColor sv newColor s)"
| "step (sv, SaveOutfit now isoString stored) s = handleSaveOutfit now isoString stored s"

fun run :: "(services \<times> action) list \<Rightarrow> AppState \<Rightarrow> AppState" where
  "run [] s = s"
| "run (a # as) s = run as (step a s)"

text \<open>
  The invariant of the history: it starts with the base layer, which has no garment,
  every later layer has one, and the current index points into it.
\<close>

fun layers_ok :: "OutfitLayer list \<Rightarrow> bool" where
  "layers_ok [] = False"
| "layers_ok (base # rest) =
     (garment base = None \<and> list_all (\<lambda>layer. garment layer \<noteq> None) rest)"

definition history_ok :: "AppState \<Rightarrow> bool" where
  "history_ok s =
     (layers_ok (outfitHistory s) \<and> currentOutfitIndex s < length (outfitHistory s))"

subsection \<open>An example session\<close>

definition sv_ok :: services where
  "sv_ok =
     \<lparr>JSON_parse = (\<lambda>text. None),
      generateVirtualTryOnImage = (\<lambda>modelImage garmentFile. Inr ''tryon.png''),
      generatePoseVariation = (\<lambda>baseImage instruction. Inr ''pose.png''),
      changeGarmentColor = (\<lambda>baseImage garmentName color. Inr ''color.png''),
      urlToFile = (\<lambda>u filename. Inr (File filename))\<rparr>"

definition sv_down :: services where
  "sv_down =
     \<lparr>JSON_parse = (\<lambda>text. None),
      generateVirtualTryOnImage = (\<lambda>modelImage garmentFile. Inl (ErrorObject ''offline'')),
      generatePoseVariation = (\<lambda>baseImage instruction. Inl (ErrorObject ''offline'')),
      changeGarmentColor = (\<lambda>baseImage garmentName color. Inl (ErrorObject ''offline'')),
      urlToFile = (\<lambda>u filename. Inl (ErrorObject ''offline''))\<rparr>"

definition tee :: WardrobeItem where
  "tee = \<lparr>id_item = ''gemini-tee'', name_item = ''Love you bibou'', url_item = ''tee.png''\<rparr>"

definition hat :: WardrobeItem where
  "hat = \<lparr>id_item = ''hat'', name_item = ''Hat'', url_item = ''hat.png''\<rparr>"

definition base_layer :: OutfitLayer where
  "base_layer =
     \<lparr>garment = None, poseImages = [(''Full frontal view, hands on hips'', ''m.png'')]\<rparr>"

definition tee_layer :: OutfitLayer where
  "tee_layer =
     \<lparr>garment = Some tee, poseImages = [(''Full frontal view, hands on hips'', ''tryon.png'')]\<rparr>"

text \<open>After the model photo \<^verbatim>\<open>m.png\<close> has been finalized.\<close>

definition started :: AppState where
  "started =
     \<lparr>modelImageUrl = Some ''m.png'', outfitHistory = [base_layer], currentOutfitIndex = 0,
      isLoading = False, loadingMessage = [], error = None, currentPoseIndex = 0,
      isSheetCollapsed = False, wardrobe = defaultWardrobe, savedOutfits = [],
      activeTab = editor\<rparr>"

text \<open>After the tee has then been applied.\<close>

definition dressed :: AppState where
  "dressed = started\<lparr>outfitHistory := [base_layer, tee_layer], currentOutfitIndex := 1\<rparr>"

text \<open>While a second garment is being generated on top of the tee.\<close>

definition dressed_busy :: AppState where
  "dressed_busy = dressed\<lparr>isLoading := True, loadingMessage := ''Adding Hat...''\<rparr>"

definition hat_layer :: OutfitLayer where
  "hat_layer =
     \<lparr>garment = Some hat, poseImages = [(''Full frontal view, hands on hips'', ''tryon.png'')]\<rparr>"

text \<open>After the tee has been removed again: the tee's layer stays in the history.\<close>

definition undone :: AppState where
  "undone = dressed\<lparr>currentOutfitIndex := 0\<rparr>"

text \<open>
  Another session: the second pose is selected on the bare model, the tee is applied in
  that pose, removed, and applied again.
\<close>

definition posed_base_layer :: OutfitLayer where
  "posed_base_layer =
     \<lparr>garment = None,
      poseImages = [(''Full frontal view, hands on hips'', ''m.png''),
                    (''Slightly turned, 3/4 view'', ''pose.png'')]\<rparr>"

definition turned_layer :: OutfitLayer where
  "turned_layer =
     \<lparr>garment = Some tee, poseImages = [(''Slightly turned, 3/4 view'', ''tryon.png'')]\<rparr>"

definition posed :: AppState where
  "posed = started\<lparr>outfitHistory := [posed_base_layer], currentPoseIndex := 1\<rparr>"

definition turned :: AppState where
  "turned = posed\<lparr>outfitHistory := [posed_base_layer, turned_layer], currentOutfitIndex := 1\<rparr>"

definition redone :: AppState where
  "redone = turned\<lparr>currentPoseIndex := 0\<rparr>"

text \<open>After the second pose has been selected on the tee.\<close>

definition two_pose_layer :: OutfitLayer where
  "two_pose_layer =
     \<lparr>garment = Some tee,
      poseImages = [(''Full frontal view, hands on hips'', ''tryon.png''),
                    (''Slightly turned, 3/4 view'', ''pose.png'')]\<rparr>"

definition dressed_posed :: AppState where
  "dressed_posed =
     dressed\<lparr>outfitHistory := [base_layer, two_pose_layer], currentPoseIndex := 1\<rparr>"

text \<open>A session in which the colour request fails and the garment is removed at the end.\<close>

definition session1 :: "(services \<times> action) list" where
  "session1 =
     [(sv_ok, GarmentSelect (File ''tee.png'') tee),
      (sv_ok, PoseSelect 1),
      (sv_down, ChangeColor ''Red''),
      (sv_ok, RemoveLastGarment)]"

text \<open>After the tee outfit has been saved at clock reading 5.\<close>

definition saved_once :: AppState where
  "saved_once =
     dressed\<lparr>savedOutfits :=
               [\<lparr>id_outfit = ''outfit-5'', thumbnailUrl = ''tryon.png'',
                 layers = [base_layer, tee_layer],
                 createdAt = ''2025-09-25T11:39:00.000Z''\<rparr>],
             activeTab := gallery\<rparr>"

text \<open>After the tee has been applied and the service has answered with an empty string.\<close>

definition blank_layer :: OutfitLayer where
  "blank_layer =
     \<lparr>garment = Some tee, poseImages = [(''Full frontal view, hands on hips'', [])]\<rparr>"

definition blank_dressed :: AppState where
  "blank_dressed = started\<lparr>outfitHistory := [base_layer, blank_layer], currentOutfitIndex := 1\<rparr>"

text \<open>
  A wrapped error payload of the image service, and a parser that knows this one text.
\<close>

definition wrapped_payload :: string where
  \<open>wrapped_payload = ''{"error":{"message":"Unsupported MIME type: image/avif"}}''\<close>

definition parse_example :: "string \<Rightarrow> json option" where
  "parse_example text =
     (if text = wrapped_payload
      then Some (JObject [(''error'',
                   JObject [(''message'', JString ''Unsupported MIME type: image/avif'')])])
      else None)"

text \<open>A service that resolves every image request with the empty string.\<close>

definition sv_blank :: services where
  "sv_blank =
     \<lparr>JSON_parse = (\<lambda>text. None),
      generateVirtualTryOnImage = (\<lambda>modelImage garmentFile. Inr []),
      generatePoseVariation = (\<lambda>baseImage instruction. Inr []),
      changeGarmentColor = (\<lambda>baseImage garmentName color. Inr []),
      urlToFile = (\<lambda>u filename. Inr (File filename))\<rparr>"

text \<open>
  The tee is applied and removed; then the second pose is selected on the bare model and
  the service resolves with the empty string.
\<close>

definition blank_posed_base_layer :: OutfitLayer where
  "blank_posed_base_layer =
     \<lparr>garment = None,
      poseImages = [(''Full frontal view, hands on hips'', ''m.png''),
                    (''Slightly turned, 3/4 view'', [])]\<rparr>"

definition undone_blank :: AppState where
  "undone_blank =
     undone\<lparr>outfitHistory := [blank_posed_base_layer, tee_layer], currentPoseIndex := 1\<rparr>"

text \<open>While the second pose is being generated on the bare model, the tee removed.\<close>

definition undone_busy :: AppState where
  "undone_busy =
     undone\<lparr>isLoading := True, loadingMessage := ''Changing pose...'', currentPoseIndex := 1\<rparr>"

text \<open>
  The tee is applied in the second pose; the first pose is then selected on it and the
  service resolves with the empty string; back in the second pose the hat is applied.
\<close>

definition half_blank_layer :: OutfitLayer where
  "half_blank_layer =
     \<lparr>garment = Some tee,
      poseImages = [(''Slightly turned, 3/4 view'', ''tryon.png''),
                    (''Full frontal view, hands on hips'', [])]\<rparr>"

definition hat_turned_layer :: OutfitLayer where
  "hat_turned_layer =
     \<lparr>garment = Some hat, poseImages = [(''Slightly turned, 3/4 view'', ''tryon.png'')]\<rparr>"

definition layered :: AppState where
  "layered =
     turned\<lparr>outfitHistory := [posed_base_layer, half_blank_layer, hat_turned_layer],
            currentOutfitIndex := 2,
            wardrobe := defaultWardrobe @ [hat]\<rparr>"

section \<open>Properties\<close>

subsection \<open>The example states are states of real sessions\<close>

lemmas example_defs =
  started_def dressed_def dressed_busy_def undone_def posed_def turned_def redone_def
  base_layer_def tee_layer_def hat_layer_def posed_base_layer_def turned_layer_def
  two_pose_layer_def dressed_posed_def sv_blank_def blank_posed_base_layer_def
  undone_blank_def undone_busy_def half_blank_layer_def hat_turned_layer_def layered_def
  tee_def hat_def sv_ok_def sv_down_def defaultWardrobe_def

lemmas js_defs =
  nth_opt_def obj_get_def obj_set_def prop_key_def POSE_INSTRUCTIONS_def
  displayImageUrl_def activeOutfitLayers_def returned_def raised_def state_after_def Let_def

lemma started_reachable: "run [(sv, ModelFinalized ''m.png'')] initialState = started"
  by (simp add: handleModelFinalized_def initialState_def example_defs js_defs)

lemma dressed_reachable:
  "run [(sv_ok, GarmentSelect (File ''tee.png'') tee)] started = dressed"
  by (simp add: handleGarmentSelect_def example_defs js_defs)

lemma dressed_busy_reachable:
  "awaited (handleGarmentSelect sv (File ''hat.png'') hat dressed) = Some dressed_busy"
  by (simp add: handleGarmentSelect_def example_defs js_defs)

lemma undone_reachable: "run [(sv, RemoveLastGarment)] dressed = undone"
  by (simp add: handleRemoveLastGarment_def example_defs)

lemma posed_reachable: "run [(sv_ok, PoseSelect 1)] started = posed"
  by (simp add: handlePoseSelect_def example_defs js_defs)

lemma turned_reachable:
  "run [(sv_ok, GarmentSelect (File ''tee.png'') tee)] posed = turned"
  by (simp add: handleGarmentSelect_def example_defs js_defs)

lemma redone_reachable:
  "run [(sv, RemoveLastGarment), (sv, GarmentSelect (File ''tee.png'') tee)] turned = redone"
  by (simp add: handleRemoveLastGarment_def handleGarmentSelect_def example_defs js_defs)

lemma dressed_posed_reachable: "run [(sv_ok, PoseSelect 1)] dressed = dressed_posed"
  by (simp add: handlePoseSelect_def example_defs js_defs)

text \<open>
  The example scenario of the spec: apply a garment, select the second pose, remove the
  garment (the history keeps its two layers), apply the garment again: the index is
  back at 1 and no request was issued.
\<close>

lemma example_scenario:
  "run [(sv_ok, GarmentSelect (File ''tee.png'') tee), (sv_ok, PoseSelect 1)] started =
     dressed_posed"
  "length (outfitHistory (handleRemoveLastGarment dressed_posed)) = 2"
  "currentOutfitIndex (handleRemoveLastGarment dressed_posed) = 0"
  "calls (handleGarmentSelect sv_down (File ''tee.png'') tee
            (handleRemoveLastGarment dressed_posed)) = []"
  "currentOutfitIndex (state_after (handleRemoveLastGarment dressed_posed)
     (handleGarmentSelect sv_down (File ''tee.png'') tee
        (handleRemoveLastGarment dressed_posed))) = 1"
  by (simp_all add: handleGarmentSelect_def handlePoseSelect_def handleRemoveLastGarment_def
        example_defs js_defs)

subsection \<open>Applying a garment\<close>

text \<open>
  C1, as the code has it.  In a state that is not busy and shows an image, with the
  current index inside the history, applying a garment whose id differs from that of
  the layer after the current one (if there is one) issues one try-on request for the
  shown image; when the request succeeds the history becomes its prefix up to the
  current index followed by exactly one new layer, which holds the applied garment and
  maps only the current pose instruction to the new image, and the current index
  advances by one.  The pose index is left as it is: the new layer's only render is
  the one for that pose.
\<close>

theorem applyGarment_new_layer:
  assumes shown: "displayImageUrl s = Some shown" "shown \<noteq> []"
    and idle: "\<not> isLoading s"
    and inrange: "currentOutfitIndex s < length (outfitHistory s)"
    and new: "case nth_opt (outfitHistory s) (currentOutfitIndex s + 1) of
                None \<Rightarrow> True
              | Some nextLayer \<Rightarrow>
                  map_option id_item (garment nextLayer) \<noteq> Some (id_item garmentInfo)"
    and ok: "generateVirtualTryOnImage sv shown garmentFile = Inr newImageUrl"
  shows "calls (handleGarmentSelect sv garmentFile garmentInfo s) =
           [TryOnRequest shown garmentFile] \<and>
         (\<exists>s'. settled (handleGarmentSelect sv garmentFile garmentInfo s) = Inr s' \<and>
            outfitHistory s' =
              take (currentOutfitIndex s + 1) (outfitHistory s) @
              [\<lparr>garment = Some garmentInfo,
                poseImages =
                  [(prop_key (nth_opt POSE_INSTRUCTIONS (currentPoseIndex s)), newImageUrl)]\<rparr>] \<and>
            length (outfitHistory s') = currentOutfitIndex s + 2 \<and>
            currentOutfitIndex s' = currentOutfitIndex s + 1 \<and>
            currentPoseIndex s' = currentPoseIndex s \<and>
            \<not> isLoading s')"
proof -
  have "\<not> (case nth_opt (outfitHistory s) (currentOutfitIndex s + 1) of
              None \<Rightarrow> False
            | Some nextLayer \<Rightarrow>
                map_option id_item (garment nextLayer) = Some (id_item garmentInfo))"
    using new by (simp split: option.splits)
  with shown idle inrange ok show ?thesis
    by (simp add: handleGarmentSelect_def Let_def)
qed

theorem applyGarment_new_layer_witness:
  "displayImageUrl undone = Some ''m.png'' \<and>
   \<not> isLoading undone \<and>
   currentOutfitIndex undone < length (outfitHistory undone) \<and>
   nth_opt (outfitHistory undone) (currentOutfitIndex undone + 1) = Some tee_layer \<and>
   map_option id_item (garment tee_layer) \<noteq> Some (id_item hat) \<and>
   generateVirtualTryOnImage sv_ok ''m.png'' (File ''hat.png'') = Inr ''tryon.png'' \<and>
   calls (handleGarmentSelect sv_ok (File ''hat.png'') hat undone) =
     [TryOnRequest ''m.png'' (File ''hat.png'')] \<and>
   (\<exists>s'. settled (handleGarmentSelect sv_ok (File ''hat.png'') hat undone) = Inr s' \<and>
      outfitHistory s' = [base_layer, hat_layer] \<and>
      currentOutfitIndex s' = 1 \<and>
      currentPoseIndex s' = 0)"
proof -
  have a: "displayImageUrl undone = Some ''m.png''"
    by (simp add: example_defs js_defs)
  have b: "''m.png'' \<noteq> []" by simp
  have c: "\<not> isLoading undone" by (simp add: example_defs)
  have d: "currentOutfitIndex undone < length (outfitHistory undone)"
    by (simp add: example_defs)
  have e: "nth_opt (outfitHistory undone) (currentOutfitIndex undone + 1) = Some tee_layer"
    by (simp add: example_defs js_defs)
  have f: "map_option id_item (garment tee_layer) \<noteq> Some (id_item hat)"
    by (simp add: example_defs)
  have g: "generateVirtualTryOnImage sv_ok ''m.png'' (File ''hat.png'') = Inr ''tryon.png''"
    by (simp add: sv_ok_def)
  have new: "case nth_opt (outfitHistory undone) (currentOutfitIndex undone + 1) of
               None \<Rightarrow> True
             | Some nextLayer \<Rightarrow> map_option id_item (garment nextLayer) \<noteq> Some (id_item hat)"
    using e f by simp
  have h: "take (currentOutfitIndex undone + 1) (outfitHistory undone) = [base_layer]"
    by (simp add: example_defs)
  have k: "prop_key (nth_opt POSE_INSTRUCTIONS (currentPoseIndex undone)) =
             ''Full frontal view, hands on hips''"
    by (simp add: example_defs js_defs)
  have l: "currentOutfitIndex undone = 0" "currentPoseIndex undone = 0"
    by (simp_all add: example_defs)
  from applyGarment_new_layer [where garmentInfo = hat, OF a b c d new g] a c d e f g h k l
  show ?thesis by (auto simp add: hat_layer_def)
qed

text \<open>
  C1 as the spec states it fails: the pose index is not reset to 0.  The tee is applied
  while the second pose is shown; the new layer is keyed by that pose and the pose
  index stays 1.
\<close>

theorem applyGarment_pose_reset_counterexample:
  "displayImageUrl posed = Some ''pose.png'' \<and>
   \<not> isLoading posed \<and>
   currentOutfitIndex posed < length (outfitHistory posed) \<and>
   nth_opt (outfitHistory posed) (currentOutfitIndex posed + 1) = None \<and>
   currentPoseIndex posed = 1 \<and>
   generateVirtualTryOnImage sv_ok ''pose.png'' (File ''tee.png'') = Inr ''tryon.png'' \<and>
   settled (handleGarmentSelect sv_ok (File ''tee.png'') tee posed) = Inr turned \<and>
   outfitHistory turned = outfitHistory posed @ [turned_layer] \<and>
   currentOutfitIndex turned = currentOutfitIndex posed + 1 \<and>
   currentPoseIndex turned \<noteq> 0"
  by (simp add: handleGarmentSelect_def example_defs js_defs)




subsection \<open>The busy flag\<close>

text \<open>The four asynchronous handlers return at once, with the state as it was, while busy.\<close>

lemma busy_rejects_handleGarmentSelect:
  "isLoading s \<Longrightarrow> handleGarmentSelect sv garmentFile garmentInfo s = returned s"
  by (simp add: handleGarmentSelect_def split: option.splits)

lemma busy_rejects_handlePoseSelect:
  "isLoading s \<Longrightarrow> handlePoseSelect sv newIndex s = returned s"
  by (simp add: handlePoseSelect_def)

lemma busy_rejects_handleRegenerateImage:
  "isLoading s \<Longrightarrow> handleRegenerateImage sv s = returned s"
  by (simp add: handleRegenerateImage_def)

lemma busy_rejects_handleChangeColor:
  "isLoading s \<Longrightarrow> handleChangeColor sv newColor s = returned s"
  by (simp add: handleChangeColor_def)

text \<open>
  A handler that awaits a call has set the flag for the time of the call, and the
  state it settles in has the flag cleared, whether the call succeeded or failed.
\<close>

lemma flag_released_handleGarmentSelect:
  "awaited (handleGarmentSelect sv garmentFile garmentInfo s) = Some busy \<Longrightarrow>
   isLoading busy \<and>
   (\<exists>s'. settled (handleGarmentSelect sv garmentFile garmentInfo s) = Inr s' \<and> \<not> isLoading s')"
  by (auto simp add: handleGarmentSelect_def Let_def returned_def
           split: option.splits if_splits sum.splits)

lemma flag_released_handlePoseSelect:
  "awaited (handlePoseSelect sv newIndex s) = Some busy \<Longrightarrow>
   isLoading busy \<and>
   (\<exists>s'. settled (handlePoseSelect sv newIndex s) = Inr s' \<and> \<not> isLoading s')"
  by (auto simp add: handlePoseSelect_def Let_def returned_def raised_def
           split: option.splits if_splits sum.splits)

lemma flag_released_handleRegenerateImage:
  "awaited (handleRegenerateImage sv s) = Some busy \<Longrightarrow>
   isLoading busy \<and>
   (\<exists>s'. settled (handleRegenerateImage sv s) = Inr s' \<and> \<not> isLoading s')"
  by (auto simp add: handleRegenerateImage_def Let_def returned_def raised_def
           split: option.splits if_splits sum.splits)

lemma flag_released_handleChangeColor:
  "awaited (handleChangeColor sv newColor s) = Some busy \<Longrightarrow>
   isLoading busy \<and>
   (\<exists>s'. settled (handleChangeColor sv newColor s) = Inr s' \<and> \<not> isLoading s')"
  by (auto simp add: handleChangeColor_def Let_def returned_def raised_def
           split: option.splits if_splits sum.splits)

text \<open>A handler that awaits nothing leaves the flag as it found it.\<close>

lemma flag_kept_without_call:
  "awaited (handleGarmentSelect sv garmentFile garmentInfo s) = None \<Longrightarrow>
     isLoading (state_after s (handleGarmentSelect sv garmentFile garmentInfo s)) = isLoading s"
  "awaited (handlePoseSelect sv newIndex s) = None \<Longrightarrow>
     isLoading (state_after s (handlePoseSelect sv newIndex s)) = isLoading s"
  "awaited (handleRegenerateImage sv s) = None \<Longrightarrow>
     isLoading (state_after s (handleRegenerateImage sv s)) = isLoading s"
  "awaited (handleChangeColor sv newColor s) = None \<Longrightarrow>
     isLoading (state_after s (handleChangeColor sv newColor s)) = isLoading s"
  by (auto simp add: handleGarmentSelect_def handlePoseSelect_def handleRegenerateImage_def
        handleChangeColor_def Let_def returned_def raised_def state_after_def
      split: option.splits if_splits sum.splits)

text \<open>
  What the missing guard leads to.  The hat is requested on top of the tee (index 1);
  while the request is in flight the tee is removed (index 0); when the request
  resolves, the hat's layer is appended after the tee's and the index is 1 again: the
  tee is shown, as if it had not been removed, and the hat is not.
\<close>

lemma handleGarmentSelect_resolved_agrees:
  assumes "awaited (handleGarmentSelect sv garmentFile garmentInfo s) = Some busy"
    and "displayImageUrl s = Some shown"
    and "generateVirtualTryOnImage sv shown garmentFile = Inr newImageUrl"
  shows "settled (handleGarmentSelect sv garmentFile garmentInfo s) =
           Inr (handleGarmentSelect_resolved garmentInfo s newImageUrl busy)"
  using assms
  by (auto simp add: handleGarmentSelect_def handleGarmentSelect_resolved_def Let_def
        returned_def split: if_splits)

lemma removal_during_apply:
  "outfitHistory (handleGarmentSelect_resolved hat dressed ''tryon.png''
     (handleRemoveLastGarment dressed_busy)) = [base_layer, tee_layer, hat_layer]"
  "currentOutfitIndex (handleGarmentSelect_resolved hat dressed ''tryon.png''
     (handleRemoveLastGarment dressed_busy)) = 1"
  by (simp_all add: handleGarmentSelect_resolved_def handleRemoveLastGarment_def
        example_defs js_defs)

text \<open>
  C3.  The claim includes \<^verbatim>\<open>removeLastGarment\<close> among the operations rejected
  while busy.  \<^verbatim>\<open>handleRemoveLastGarment\<close> does not read the flag: in the state
  rendered while a hat is being generated on top of the tee, it moves the index from
  1 to 0.
\<close>

theorem removeLastGarment_while_busy:
  "awaited (handleGarmentSelect sv_ok (File ''hat.png'') hat dressed) = Some dressed_busy \<and>
   isLoading dressed_busy \<and>
   currentOutfitIndex dressed_busy = 1 \<and>
   handleRemoveLastGarment dressed_busy =
     dressed_busy\<lparr>currentOutfitIndex := 0, currentPoseIndex := 0\<rparr> \<and>
   currentOutfitIndex (handleRemoveLastGarment dressed_busy) \<noteq> currentOutfitIndex dressed_busy"
  by (simp add: handleRemoveLastGarment_def handleGarmentSelect_def example_defs js_defs)

subsection \<open>Changing the colour\<close>

text \<open>
  C4.  With the current index greater than 0, a successful colour change (the store is
  not busy, the layer at the index has a garment and a non-empty first render, and the
  colour request resolves) replaces the layer at the index by a layer with the same
  garment whose poseImages has exactly one key, the current pose instruction, mapped
  to the new image; no other layer changes, and neither index changes.
\<close>

theorem changeColor_replaces_layer:
  assumes idle: "\<not> isLoading s"
    and pos: "0 < currentOutfitIndex s"
    and layer: "nth_opt (outfitHistory s) (currentOutfitIndex s) = Some currentLayer"
    and g: "garment currentLayer = Some garmentInfo"
    and base: "first_value (poseImages currentLayer) = Some baseImage" "baseImage \<noteq> []"
    and ok: "changeGarmentColor sv baseImage (name_item garmentInfo) newColor = Inr newImageUrl"
  shows "calls (handleChangeColor sv newColor s) =
           [ColorRequest baseImage (name_item garmentInfo) newColor] \<and>
         (\<exists>s'. settled (handleChangeColor sv newColor s) = Inr s' \<and>
            nth_opt (outfitHistory s') (currentOutfitIndex s) =
              Some \<lparr>garment = garment currentLayer,
                    poseImages =
                      [(prop_key (nth_opt POSE_INSTRUCTIONS (currentPoseIndex s)), newImageUrl)]\<rparr> \<and>
            (\<forall>j. j \<noteq> currentOutfitIndex s \<longrightarrow>
                 nth_opt (outfitHistory s') j = nth_opt (outfitHistory s) j) \<and>
            length (outfitHistory s') = length (outfitHistory s) \<and>
            currentOutfitIndex s' = currentOutfitIndex s \<and>
            currentPoseIndex s' = currentPoseIndex s \<and>
            \<not> isLoading s')"
  using assms by (simp add: handleChangeColor_def Let_def nth_opt_def split: if_splits)

theorem changeColor_replaces_layer_witness:
  "\<not> isLoading dressed_posed \<and>
   0 < currentOutfitIndex dressed_posed \<and>
   nth_opt (outfitHistory dressed_posed) (currentOutfitIndex dressed_posed) = Some two_pose_layer \<and>
   garment two_pose_layer = Some tee \<and>
   first_value (poseImages two_pose_layer) = Some ''tryon.png'' \<and>
   map fst (poseImages two_pose_layer) =
     [''Full frontal view, hands on hips'', ''Slightly turned, 3/4 view''] \<and>
   changeGarmentColor sv_ok ''tryon.png'' (name_item tee) ''Red'' = Inr ''color.png'' \<and>
   (\<exists>s'. settled (handleChangeColor sv_ok ''Red'' dressed_posed) = Inr s' \<and>
      outfitHistory s' =
        [base_layer,
         \<lparr>garment = Some tee, poseImages = [(''Slightly turned, 3/4 view'', ''color.png'')]\<rparr>] \<and>
      currentOutfitIndex s' = 1 \<and> currentPoseIndex s' = 1)"
proof -
  have a: "\<not> isLoading dressed_posed" by (simp add: example_defs)
  have b: "0 < currentOutfitIndex dressed_posed" by (simp add: example_defs)
  have c: "nth_opt (outfitHistory dressed_posed) (currentOutfitIndex dressed_posed) =
             Some two_pose_layer"
    by (simp add: example_defs js_defs)
  have d: "garment two_pose_layer = Some tee" by (simp add: example_defs)
  have e: "first_value (poseImages two_pose_layer) = Some ''tryon.png''"
    by (simp add: example_defs)
  have f: "''tryon.png'' \<noteq> []" by simp
  have g: "changeGarmentColor sv_ok ''tryon.png'' (name_item tee) ''Red'' = Inr ''color.png''"
    by (simp add: sv_ok_def)
  have h: "map fst (poseImages two_pose_layer) =
             [''Full frontal view, hands on hips'', ''Slightly turned, 3/4 view'']"
    by (simp add: example_defs)
  have k: "prop_key (nth_opt POSE_INSTRUCTIONS (currentPoseIndex dressed_posed)) =
             ''Slightly turned, 3/4 view''"
    by (simp add: example_defs js_defs)
  have l: "currentOutfitIndex dressed_posed = 1" "currentPoseIndex dressed_posed = 1"
    "outfitHistory dressed_posed = [base_layer, two_pose_layer]"
    by (simp_all add: example_defs)
  from changeColor_replaces_layer [OF a b c d e f g] obtain s' where
    s': "settled (handleChangeColor sv_ok ''Red'' dressed_posed) = Inr s'"
      "nth_opt (outfitHistory s') (currentOutfitIndex dressed_posed) =
         Some \<lparr>garment = garment two_pose_layer,
               poseImages =
                 [(prop_key (nth_opt POSE_INSTRUCTIONS (currentPoseIndex dressed_posed)),
                   ''color.png'')]\<rparr>"
      "\<forall>j. j \<noteq> currentOutfitIndex dressed_posed \<longrightarrow>
           nth_opt (outfitHistory s') j = nth_opt (outfitHistory dressed_posed) j"
      "length (outfitHistory s') = length (outfitHistory dressed_posed)"
      "currentOutfitIndex s' = currentOutfitIndex dressed_posed"
      "currentPoseIndex s' = currentPoseIndex dressed_posed"
    by blast
  from s'(3) have "nth_opt (outfitHistory s') 0 = nth_opt (outfitHistory dressed_posed) 0"
    using l(1) by simp
  with s'(2,4) have "outfitHistory s' =
      [base_layer,
       \<lparr>garment = Some tee, poseImages = [(''Slightly turned, 3/4 view'', ''color.png'')]\<rparr>]"
    using d k l by (cases "outfitHistory s'"; cases "tl (outfitHistory s')")
      (auto simp add: nth_opt_def split: if_splits)
  with s' a b c d e g h l show ?thesis by simp
qed

subsection \<open>Selecting a pose\<close>

lemma selectPose_issues_request:
  assumes "\<not> isLoading s" and "outfitHistory s \<noteq> []" and "newIndex \<noteq> currentPoseIndex s"
    and "nth_opt (outfitHistory s) (currentOutfitIndex s) = Some currentLayer"
    and "\<not> truthy (obj_get (poseImages currentLayer) (prop_key (nth_opt POSE_INSTRUCTIONS newIndex)))"
    and "first_value (poseImages currentLayer) = Some baseImage" and "baseImage \<noteq> []"
  shows "calls (handlePoseSelect sv newIndex s) =
           [PoseRequest baseImage (nth_opt POSE_INSTRUCTIONS newIndex)]"
  using assms by (simp add: handlePoseSelect_def Let_def)

text \<open>
  C5.  In every state: when selecting a pose issues a pose request (there was no cached
  render for the pose) and the request fails, the handler settles with the pose index
  it started from and with the history, hence the active layer's poseImages,
  unchanged; the current index is unchanged, the busy flag is cleared and the error
  message is set.
\<close>

theorem selectPose_failure_reverts:
  assumes issued: "calls (handlePoseSelect sv newIndex s) = [PoseRequest baseImage poseInstruction]"
    and fails: "generatePoseVariation sv baseImage poseInstruction = Inl err"
  shows "\<exists>s'. settled (handlePoseSelect sv newIndex s) = Inr s' \<and>
           currentPoseIndex s' = currentPoseIndex s \<and>
           outfitHistory s' = outfitHistory s \<and>
           currentOutfitIndex s' = currentOutfitIndex s \<and>
           \<not> isLoading s' \<and>
           error s' = Some (getFriendlyErrorMessage (JSON_parse sv) err ''Failed to change pose'')"
  using assms
  by (auto simp add: handlePoseSelect_def Let_def returned_def raised_def
           split: if_splits option.splits)

theorem selectPose_failure_reverts_witness:
  "obj_get (poseImages tee_layer) ''Slightly turned, 3/4 view'' = None \<and>
   calls (handlePoseSelect sv_down 1 dressed) =
     [PoseRequest ''tryon.png'' (Some ''Slightly turned, 3/4 view'')] \<and>
   generatePoseVariation sv_down ''tryon.png'' (Some ''Slightly turned, 3/4 view'') =
     Inl (ErrorObject ''offline'') \<and>
   map_option currentPoseIndex (awaited (handlePoseSelect sv_down 1 dressed)) = Some 1 \<and>
   (\<exists>s'. settled (handlePoseSelect sv_down 1 dressed) = Inr s' \<and>
      currentPoseIndex s' = currentPoseIndex dressed \<and>
      outfitHistory s' = outfitHistory dressed \<and>
      error s' = Some ''Failed to change pose. offline'')"
proof -
  have a: "calls (handlePoseSelect sv_down 1 dressed) =
             [PoseRequest ''tryon.png'' (Some ''Slightly turned, 3/4 view'')]"
    by (simp add: handlePoseSelect_def example_defs js_defs)
  have b: "generatePoseVariation sv_down ''tryon.png'' (Some ''Slightly turned, 3/4 view'') =
             Inl (ErrorObject ''offline'')"
    by (simp add: sv_down_def)
  have c: "obj_get (poseImages tee_layer) ''Slightly turned, 3/4 view'' = None"
    by (simp add: example_defs js_defs)
  have d: "map_option currentPoseIndex (awaited (handlePoseSelect sv_down 1 dressed)) = Some 1"
    by (simp add: handlePoseSelect_def example_defs js_defs)
  have e: "getFriendlyErrorMessage (JSON_parse sv_down) (ErrorObject ''offline'')
             ''Failed to change pose'' = ''Failed to change pose. offline''"
    by (simp add: getFriendlyErrorMessage_def rawMessage_def unsupported_marker_def)
  from selectPose_failure_reverts [OF a b] a b c d e show ?thesis by auto
qed

text \<open>
  C10.  Selecting the pose that is already displayed returns at once in every state: no
  request is issued and the state is unchanged, whether or not the active layer has a
  render for that pose.
\<close>

theorem selectPose_same_pose:
  "calls (handlePoseSelect sv (currentPoseIndex s) s) = [] \<and>
   awaited (handlePoseSelect sv (currentPoseIndex s) s) = None \<and>
   settled (handlePoseSelect sv (currentPoseIndex s) s) = Inr s"
  by (simp add: handlePoseSelect_def returned_def)

theorem selectPose_same_pose_witness:
  "outfitHistory redone \<noteq> [] \<and>
   nth_opt (outfitHistory redone) (currentOutfitIndex redone) = Some turned_layer \<and>
   obj_get (poseImages turned_layer)
     (prop_key (nth_opt POSE_INSTRUCTIONS (currentPoseIndex redone))) = None \<and>
   calls (handlePoseSelect sv_ok (currentPoseIndex redone) redone) = [] \<and>
   settled (handlePoseSelect sv_ok (currentPoseIndex redone) redone) = Inr redone"
proof -
  have "outfitHistory redone \<noteq> []"
    "nth_opt (outfitHistory redone) (currentOutfitIndex redone) = Some turned_layer"
    "obj_get (poseImages turned_layer)
       (prop_key (nth_opt POSE_INSTRUCTIONS (currentPoseIndex redone))) = None"
    by (simp_all add: example_defs js_defs)
  with selectPose_same_pose [of sv_ok redone] show ?thesis by simp
qed

subsection \<open>Removing the last garment\<close>





subsection \<open>The invariant of the history\<close>

lemma layers_ok_iff:
  "layers_ok H \<longleftrightarrow>
     H \<noteq> [] \<and> garment (H ! 0) = None \<and>
     (\<forall>k. 0 < k \<and> k < length H \<longrightarrow> garment (H ! k) \<noteq> None)"
proof (cases H)
  case Nil
  then show ?thesis by simp
next
  case (Cons base rest)
  have "list_all (\<lambda>layer. garment layer \<noteq> None) rest \<longleftrightarrow>
        (\<forall>k. 0 < k \<and> k < Suc (length rest) \<longrightarrow> garment ((base # rest) ! k) \<noteq> None)"
  proof
    assume all: "list_all (\<lambda>layer. garment layer \<noteq> None) rest"
    show "\<forall>k. 0 < k \<and> k < Suc (length rest) \<longrightarrow> garment ((base # rest) ! k) \<noteq> None"
    proof (intro allI impI)
      fix k assume k: "0 < k \<and> k < Suc (length rest)"
      then obtain j where j: "k = Suc j" "j < length rest" by (cases k) auto
      with all show "garment ((base # rest) ! k) \<noteq> None"
        by (simp add: list_all_length)
    qed
  next
    assume idx: "\<forall>k. 0 < k \<and> k < Suc (length rest) \<longrightarrow> garment ((base # rest) ! k) \<noteq> None"
    show "list_all (\<lambda>layer. garment layer \<noteq> None) rest"
      unfolding list_all_length
    proof (intro allI impI)
      fix j assume "j < length rest"
      with idx have "garment ((base # rest) ! Suc j) \<noteq> None" by blast
      then show "garment (rest ! j) \<noteq> None" by simp
    qed
  qed
  with Cons show ?thesis by simp
qed

lemma layers_ok_take_snoc:
  assumes "layers_ok H" and "garment new \<noteq> None"
  shows "layers_ok (take (Suc i) H @ [new])"
proof (cases H)
  case Nil
  with assms show ?thesis by simp
next
  case (Cons base rest)
  with assms have "list_all (\<lambda>layer. garment layer \<noteq> None) (take i rest)"
    by (auto simp add: list_all_iff dest: in_set_takeD)
  with Cons assms show ?thesis by simp
qed

lemma layers_ok_update_same_garment:
  assumes "layers_ok H" and "i < length H" and "garment new = garment (H ! i)"
  shows "layers_ok (H[i := new])"
proof (cases H)
  case Nil
  with assms show ?thesis by simp
next
  case (Cons base rest)
  show ?thesis
  proof (cases i)
    case 0
    with Cons assms show ?thesis by simp
  next
    case (Suc j)
    with Cons assms have "garment new \<noteq> None"
      by (simp add: list_all_length)
    with Cons Suc assms have "list_all (\<lambda>layer. garment layer \<noteq> None) (rest[j := new])"
      by (auto simp add: list_all_iff dest: set_update_subset_insert [THEN subsetD])
    with Cons Suc assms show ?thesis by simp
  qed
qed

lemma layers_ok_update_garment:
  assumes "layers_ok H" and "0 < i" and "garment new \<noteq> None"
  shows "layers_ok (H[i := new])"
proof (cases H)
  case Nil
  with assms show ?thesis by simp
next
  case (Cons base rest)
  from assms(2) obtain j where j: "i = Suc j" by (cases i) auto
  with Cons assms have "list_all (\<lambda>layer. garment layer \<noteq> None) (rest[j := new])"
    by (auto simp add: list_all_iff dest: set_update_subset_insert [THEN subsetD])
  with Cons j assms show ?thesis by simp
qed

lemma history_ok_handleModelFinalized: "history_ok (handleModelFinalized url s)"
  by (simp add: history_ok_def handleModelFinalized_def)

lemma history_ok_handleRemoveLastGarment:
  "history_ok s \<Longrightarrow> history_ok (handleRemoveLastGarment s)"
  by (auto simp add: history_ok_def handleRemoveLastGarment_def)

lemma history_ok_handleSaveOutfit:
  "history_ok s \<Longrightarrow> history_ok (handleSaveOutfit now isoString stored s)"
  by (simp add: history_ok_def handleSaveOutfit_def Let_def split: option.splits)

lemma history_ok_handleGarmentSelect:
  assumes "history_ok s"
  shows "history_ok (state_after s (handleGarmentSelect sv garmentFile garmentInfo s))"
proof -
  have new: "layers_ok (take (Suc (currentOutfitIndex s)) (outfitHistory s) @
               [\<lparr>garment = Some garmentInfo, poseImages = ps\<rparr>])" for ps
    using assms by (intro layers_ok_take_snoc) (simp_all add: history_ok_def)
  from assms new show ?thesis
    by (auto simp add: history_ok_def handleGarmentSelect_def state_after_def returned_def
          Let_def nth_opt_def
        split: option.splits if_splits sum.splits)
qed

lemma history_ok_handlePoseSelect:
  assumes "history_ok s"
  shows "history_ok (state_after s (handlePoseSelect sv newIndex s))"
proof -
  have upd: "layers_ok ((outfitHistory s)
               [currentOutfitIndex s := (outfitHistory s ! currentOutfitIndex s)\<lparr>poseImages := ps\<rparr>])"
    for ps
    using assms by (intro layers_ok_update_same_garment) (simp_all add: history_ok_def)
  from assms upd show ?thesis
    by (auto simp add: history_ok_def handlePoseSelect_def state_after_def returned_def
          raised_def Let_def
        split: option.splits if_splits sum.splits)
qed

lemma history_ok_handleRegenerateImage:
  assumes "history_ok s"
  shows "history_ok (state_after s (handleRegenerateImage sv s))"
proof -
  have upd: "layers_ok ((outfitHistory s)
               [currentOutfitIndex s := (outfitHistory s ! currentOutfitIndex s)\<lparr>poseImages := ps\<rparr>])"
    for ps
    using assms by (intro layers_ok_update_same_garment) (simp_all add: history_ok_def)
  from assms upd show ?thesis
    by (auto simp add: history_ok_def handleRegenerateImage_def state_after_def returned_def
          raised_def Let_def
        split: option.splits if_splits sum.splits)
qed

lemma history_ok_handleChangeColor:
  assumes "history_ok s"
  shows "history_ok (state_after s (handleChangeColor sv newColor s))"
proof -
  have upd: "0 < currentOutfitIndex s \<Longrightarrow>
             layers_ok ((outfitHistory s)
               [currentOutfitIndex s := \<lparr>garment = Some garmentInfo, poseImages = ps\<rparr>])"
    for garmentInfo ps
    using assms by (intro layers_ok_update_garment) (simp_all add: history_ok_def)
  from assms upd show ?thesis
    by (auto simp add: history_ok_def handleChangeColor_def state_after_def returned_def
          raised_def Let_def
        split: option.splits if_splits sum.splits)
qed

lemma history_ok_step: "history_ok s \<Longrightarrow> history_ok (step a s)"
proof (cases a)
  case (Pair sv act)
  assume "history_ok s"
  with Pair show ?thesis
    by (cases act)
      (simp_all add: history_ok_handleModelFinalized history_ok_handleRemoveLastGarment
         history_ok_handleSaveOutfit history_ok_handleGarmentSelect history_ok_handlePoseSelect
         history_ok_handleRegenerateImage history_ok_handleChangeColor)
qed

lemma history_ok_run: "history_ok s \<Longrightarrow> history_ok (run as s)"
  by (induction as arbitrary: s) (simp_all add: history_ok_step)

text \<open>In a state that satisfies the invariant no handler raises the TypeError.\<close>

lemma history_ok_no_TypeError:
  assumes "history_ok s"
  shows "settled (handleGarmentSelect sv garmentFile garmentInfo s) \<noteq> Inl e"
    and "settled (handlePoseSelect sv newIndex s) \<noteq> Inl e"
    and "settled (handleRegenerateImage sv s) \<noteq> Inl e"
    and "settled (handleChangeColor sv newColor s) \<noteq> Inl e"
  using assms
  by (auto simp add: history_ok_def handleGarmentSelect_def handlePoseSelect_def
        handleRegenerateImage_def handleChangeColor_def returned_def raised_def Let_def
        nth_opt_def
      split: option.splits if_splits sum.splits)

text \<open>
  C8.  After \<^verbatim>\<open>finalizeModel\<close>, and after any sequence of the store's operations
  (and of saving), whatever the collaborators answer: the history is not empty, its
  layer 0 has no garment, every layer at an index greater than 0 has a garment, and
  the current index is less than the length of the history.
\<close>

theorem history_invariant:
  "outfitHistory (run as (handleModelFinalized url s)) \<noteq> [] \<and>
   garment (outfitHistory (run as (handleModelFinalized url s)) ! 0) = None \<and>
   (\<forall>k. 0 < k \<and> k < length (outfitHistory (run as (handleModelFinalized url s))) \<longrightarrow>
        garment (outfitHistory (run as (handleModelFinalized url s)) ! k) \<noteq> None) \<and>
   currentOutfitIndex (run as (handleModelFinalized url s)) <
     length (outfitHistory (run as (handleModelFinalized url s)))"
proof -
  have "history_ok (run as (handleModelFinalized url s))"
    by (rule history_ok_run) (rule history_ok_handleModelFinalized)
  then show ?thesis
    unfolding history_ok_def layers_ok_iff by blast
qed

theorem history_invariant_witness:
  "length (outfitHistory (run session1 (handleModelFinalized ''m.png'' initialState))) = 2 \<and>
   garment (outfitHistory (run session1 (handleModelFinalized ''m.png'' initialState)) ! 0) = None \<and>
   garment (outfitHistory (run session1 (handleModelFinalized ''m.png'' initialState)) ! 1) \<noteq> None \<and>
   currentOutfitIndex (run session1 (handleModelFinalized ''m.png'' initialState)) < 2"
proof -
  have len: "length (outfitHistory (run session1 (handleModelFinalized ''m.png'' initialState))) = 2"
    by (simp add: session1_def handleModelFinalized_def initialState_def handleGarmentSelect_def
          handlePoseSelect_def handleChangeColor_def handleRemoveLastGarment_def
          example_defs js_defs)
  from history_invariant [of session1 "''m.png''" initialState] len
  have "garment (outfitHistory (run session1 (handleModelFinalized ''m.png'' initialState)) ! 0) = None"
    and "garment (outfitHistory (run session1 (handleModelFinalized ''m.png'' initialState)) ! 1) \<noteq> None"
    and "currentOutfitIndex (run session1 (handleModelFinalized ''m.png'' initialState)) < 2"
    by simp_all
  with len show ?thesis by simp
qed


subsection \<open>Saving an outfit\<close>

lemma digit_char_inject:
  assumes "a < 10" and "b < 10" and "digit_char a = digit_char b"
  shows "a = b"
proof -
  have A: "a = 0 \<or> a = 1 \<or> a = 2 \<or> a = 3 \<or> a = 4 \<or> a = 5 \<or> a = 6 \<or> a = 7 \<or> a = 8 \<or> a = 9"
    using assms(1) by arith
  have B: "b = 0 \<or> b = 1 \<or> b = 2 \<or> b = 3 \<or> b = 4 \<or> b = 5 \<or> b = 6 \<or> b = 7 \<or> b = 8 \<or> b = 9"
    using assms(2) by arith
  from A B assms(3) show ?thesis
    by (elim disjE) (simp_all add: digit_char_def)
qed

lemma dec_length_one: "n < 10 \<Longrightarrow> length (dec n) = 1"
  by (simp add: dec.simps)

lemma dec_not_Nil: "dec n \<noteq> []"
  by (subst dec.simps) simp

lemma dec_length_two: "\<not> n < 10 \<Longrightarrow> 2 \<le> length (dec n)"
  using dec_not_Nil [of "n div 10"]
  by (subst dec.simps) (simp add: Suc_le_eq)

text \<open>Different clock readings have different numerals.\<close>

lemma dec_inject: "dec n = dec m \<Longrightarrow> n = m"
proof (induction n arbitrary: m rule: dec.induct)
  case (1 n)
  show ?case
  proof (cases "n < 10")
    case True
    with "1.prems" have "length (dec m) = 1" using dec_length_one [of n] by simp
    with dec_length_two [of m] have m: "m < 10" by (cases "m < 10") simp_all
    with True "1.prems" have "digit_char n = digit_char m" by (simp add: dec.simps)
    with True m show ?thesis by (rule digit_char_inject)
  next
    case False
    with "1.prems" have "2 \<le> length (dec m)" using dec_length_two [of n] by simp
    with dec_length_one [of m] have m: "\<not> m < 10" by (cases "m < 10") simp_all
    from False m "1.prems"
    have eq: "dec (n div 10) @ [digit_char (n mod 10)] = dec (m div 10) @ [digit_char (m mod 10)]"
      by (simp add: dec.simps [of n] dec.simps [of m])
    then have "dec (n div 10) = dec (m div 10)" and d: "digit_char (n mod 10) = digit_char (m mod 10)"
      by simp_all
    with False "1.IH" have q: "n div 10 = m div 10" by simp
    have "n mod 10 = m mod 10" by (rule digit_char_inject [OF _ _ d]) simp_all
    with q show ?thesis by (metis div_mult_mod_eq)
  qed
qed

lemma saved_once_reachable:
  "run [(sv, SaveOutfit 5 ''2025-09-25T11:39:00.000Z'' True)] dressed = saved_once"
  by (simp add: handleSaveOutfit_def saved_once_def dec.simps digit_char_def
        example_defs js_defs)

lemma blank_dressed_reachable:
  "run [(sv_ok\<lparr>generateVirtualTryOnImage := (\<lambda>modelImage garmentFile. Inr [])\<rparr>,
         GarmentSelect (File ''tee.png'') tee)] started = blank_dressed"
  by (simp add: handleGarmentSelect_def blank_dressed_def blank_layer_def example_defs js_defs)

text \<open>
  C6, as the code has it.  Saving is rejected, and nothing changes, when there are at
  most one active layer or no non-empty displayed image.  With two or more active
  layers L and a non-empty displayed image it puts a new SavedOutfit in front of the
  gallery whose thumbnailUrl is that image, whose layers are L, and whose id is
  \<^verbatim>\<open>outfit-\<close> followed by the clock reading in milliseconds.  That id differs
  from the ids of all saved outfits provided each of them was saved at another clock
  reading.
\<close>

theorem save_outfit:
  "(length (activeOutfitLayers s) \<le> 1 \<longrightarrow> handleSaveOutfit now isoString stored s = s) \<and>
   (\<not> truthy (displayImageUrl s) \<longrightarrow> handleSaveOutfit now isoString stored s = s) \<and>
   (1 < length (activeOutfitLayers s) \<and> displayImageUrl s = Some thumbnail \<and> thumbnail \<noteq> [] \<longrightarrow>
      savedOutfits (handleSaveOutfit now isoString stored s) =
        \<lparr>id_outfit = ''outfit-'' @ dec now, thumbnailUrl = thumbnail,
         layers = activeOutfitLayers s, createdAt = isoString\<rparr> # savedOutfits s \<and>
      outfitHistory (handleSaveOutfit now isoString stored s) = outfitHistory s \<and>
      currentOutfitIndex (handleSaveOutfit now isoString stored s) = currentOutfitIndex s \<and>
      ((\<forall>saved \<in> set (savedOutfits s). \<exists>t. t \<noteq> now \<and> id_outfit saved = ''outfit-'' @ dec t) \<longrightarrow>
         ''outfit-'' @ dec now \<notin> id_outfit ` set (savedOutfits s)))"
proof -
  have fresh: "''outfit-'' @ dec now \<notin> id_outfit ` set (savedOutfits s)"
    if "\<forall>saved \<in> set (savedOutfits s). \<exists>t. t \<noteq> now \<and> id_outfit saved = ''outfit-'' @ dec t"
  proof
    assume "''outfit-'' @ dec now \<in> id_outfit ` set (savedOutfits s)"
    then obtain saved where saved: "saved \<in> set (savedOutfits s)"
      and id: "id_outfit saved = ''outfit-'' @ dec now" by auto
    from that saved obtain t where t: "t \<noteq> now" "id_outfit saved = ''outfit-'' @ dec t" by blast
    with id have "dec t = dec now" by simp
    then have "t = now" by (rule dec_inject)
    with t show False by simp
  qed
  have rejected: "length (activeOutfitLayers s) \<le> 1 \<longrightarrow> handleSaveOutfit now isoString stored s = s"
    by (simp add: handleSaveOutfit_def split: option.splits)
  have no_image: "\<not> truthy (displayImageUrl s) \<longrightarrow> handleSaveOutfit now isoString stored s = s"
    by (cases "displayImageUrl s") (simp_all add: handleSaveOutfit_def)
  have saved: "1 < length (activeOutfitLayers s) \<and> displayImageUrl s = Some thumbnail \<and> thumbnail \<noteq> [] \<longrightarrow>
      savedOutfits (handleSaveOutfit now isoString stored s) =
        \<lparr>id_outfit = ''outfit-'' @ dec now, thumbnailUrl = thumbnail,
         layers = activeOutfitLayers s, createdAt = isoString\<rparr> # savedOutfits s \<and>
      outfitHistory (handleSaveOutfit now isoString stored s) = outfitHistory s \<and>
      currentOutfitIndex (handleSaveOutfit now isoString stored s) = currentOutfitIndex s"
    by (simp add: handleSaveOutfit_def Let_def)
  from rejected no_image saved fresh show ?thesis by blast
qed

theorem save_outfit_witness:
  "length (activeOutfitLayers started) \<le> 1 \<and>
   handleSaveOutfit 42 ''2025-09-25T11:45:00.000Z'' True started = started \<and>
   \<not> truthy (displayImageUrl blank_dressed) \<and>
   handleSaveOutfit 42 ''2025-09-25T11:45:00.000Z'' True blank_dressed = blank_dressed \<and>
   1 < length (activeOutfitLayers saved_once) \<and>
   displayImageUrl saved_once = Some ''tryon.png'' \<and>
   map id_outfit (savedOutfits saved_once) = [''outfit-'' @ dec 5] \<and>
   savedOutfits (handleSaveOutfit 42 ''2025-09-25T11:45:00.000Z'' True saved_once) =
     \<lparr>id_outfit = ''outfit-42'', thumbnailUrl = ''tryon.png'',
      layers = [base_layer, tee_layer], createdAt = ''2025-09-25T11:45:00.000Z''\<rparr> #
     savedOutfits saved_once \<and>
   ''outfit-42'' \<notin> id_outfit ` set (savedOutfits saved_once)"
proof -
  have a: "length (activeOutfitLayers started) \<le> 1"
    by (simp add: example_defs js_defs)
  have b: "\<not> truthy (displayImageUrl blank_dressed)"
    by (simp add: blank_dressed_def blank_layer_def example_defs js_defs)
  have c: "1 < length (activeOutfitLayers saved_once)"
    "displayImageUrl saved_once = Some ''tryon.png''"
    "activeOutfitLayers saved_once = [base_layer, tee_layer]"
    by (simp_all add: saved_once_def example_defs js_defs)
  have d: "map id_outfit (savedOutfits saved_once) = [''outfit-'' @ dec 5]"
    by (simp add: saved_once_def dec.simps digit_char_def)
  have e: "\<forall>saved \<in> set (savedOutfits saved_once).
             \<exists>t. t \<noteq> 42 \<and> id_outfit saved = ''outfit-'' @ dec t"
  proof -
    have "(5::nat) \<noteq> 42 \<and> ''outfit-5'' = ''outfit-'' @ dec 5"
      by (simp add: dec.simps digit_char_def)
    then have "\<exists>t. t \<noteq> 42 \<and> ''outfit-5'' = ''outfit-'' @ dec t" by blast
    then show ?thesis by (simp add: saved_once_def)
  qed
  have f: "''outfit-'' @ dec 42 = ''outfit-42''"
    by (simp add: dec.simps digit_char_def)
  note inst = save_outfit [of _ 42 "''2025-09-25T11:45:00.000Z''" True]
  from inst [of started] a
  have g: "handleSaveOutfit 42 ''2025-09-25T11:45:00.000Z'' True started = started" by blast
  from inst [of blank_dressed] b
  have h: "handleSaveOutfit 42 ''2025-09-25T11:45:00.000Z'' True blank_dressed = blank_dressed"
    by blast
  from inst [of saved_once "''tryon.png''"] c e
  have "savedOutfits (handleSaveOutfit 42 ''2025-09-25T11:45:00.000Z'' True saved_once) =
          \<lparr>id_outfit = ''outfit-'' @ dec 42, thumbnailUrl = ''tryon.png'',
           layers = activeOutfitLayers saved_once, createdAt = ''2025-09-25T11:45:00.000Z''\<rparr> #
          savedOutfits saved_once \<and>
        ''outfit-'' @ dec 42 \<notin> id_outfit ` set (savedOutfits saved_once)"
    by simp
  with a b c d f g h show ?thesis by simp
qed

text \<open>
  C6 as the spec states it fails in two ways.  The id is made from the clock alone: an
  outfit saved at reading 5 and another saved at the same reading get the same id.
  And two active layers are not enough: with an empty displayed image the save is
  rejected.
\<close>

theorem save_outfit_counterexample:
  "1 < length (activeOutfitLayers saved_once) \<and>
   displayImageUrl saved_once = Some ''tryon.png'' \<and>
   map id_outfit (savedOutfits saved_once) = [''outfit-5''] \<and>
   map id_outfit (savedOutfits (handleSaveOutfit 5 ''2025-09-25T11:39:00.000Z'' True saved_once)) =
     [''outfit-5'', ''outfit-5''] \<and>
   \<not> distinct (map id_outfit
        (savedOutfits (handleSaveOutfit 5 ''2025-09-25T11:39:00.000Z'' True saved_once))) \<and>
   length (activeOutfitLayers blank_dressed) = 2 \<and>
   savedOutfits (handleSaveOutfit 5 ''2025-09-25T11:39:00.000Z'' True blank_dressed) =
     savedOutfits blank_dressed"
  by (simp add: handleSaveOutfit_def saved_once_def blank_dressed_def blank_layer_def
        dec.simps digit_char_def example_defs js_defs)


subsection \<open>The friendly error message\<close>

lemma split_from_no_sep: "\<not> includes_str s sep \<Longrightarrow> split_from sep cur s = [cur @ s]"
  by (induction s arbitrary: cur) simp_all

lemma includes_str_Nil: "includes_str s []"
  by (cases s) simp_all

lemma includes_str_prefix: "includes_str (sub @ rest) sub"
  by (cases sub) (simp_all add: includes_str_Nil)

text \<open>The MIME type is what follows the first colon and space, up to the next.\<close>

lemma mimeType_of_canonical:
  assumes "mime \<noteq> []" and "\<not> includes_str mime '': ''"
  shows "mimeType_of (''Unsupported MIME type: '' @ mime) = mime"
  using assms by (simp add: mimeType_of_def split_str_def nth_opt_def split_from_no_sep)

lemma template_not_unsupported:
  assumes "context \<in> set handler_contexts"
  shows "context @ ''. '' @ raw \<noteq> unsupported_format_message"
    and "context @ ''. '' @ raw \<noteq> file_type_message mimeType"
  using assms
  by (auto simp add: handler_contexts_def unsupported_format_message_def file_type_message_def)

text \<open>
  C9.  For every thrown value and every context: when the raw message does not contain
  \<^verbatim>\<open>Unsupported MIME type\<close> the result is the context, a period, a space and the
  raw message; when it does, the result is an unsupported-file-type message, namely
  the one naming the MIME type if the raw message parses as JSON with a string at
  \<^verbatim>\<open>error.message\<close> that contains the marker, and the general one otherwise.  A
  payload \<^verbatim>\<open>{"error":{"message":"Unsupported MIME type: T"}}\<close> yields the
  message naming T.  For the contexts the handlers pass, the result is an
  unsupported-file-type message exactly when the raw message contains the marker.
\<close>

theorem friendly_error_message:
  "(\<not> includes_str (rawMessage err) ''Unsupported MIME type'' \<longrightarrow>
      getFriendlyErrorMessage parse err context = context @ ''. '' @ rawMessage err) \<and>
   (includes_str (rawMessage err) ''Unsupported MIME type'' \<and>
    get_prop (get_prop (parse (rawMessage err)) ''error'') ''message'' = Some (JString nested) \<and>
    includes_str nested ''Unsupported MIME type'' \<longrightarrow>
      getFriendlyErrorMessage parse err context = file_type_message (mimeType_of nested)) \<and>
   (includes_str (rawMessage err) ''Unsupported MIME type'' \<and>
    (\<forall>m. get_prop (get_prop (parse (rawMessage err)) ''error'') ''message'' = Some (JString m) \<longrightarrow>
         \<not> includes_str m ''Unsupported MIME type'') \<longrightarrow>
      getFriendlyErrorMessage parse err context = unsupported_format_message) \<and>
   (includes_str (rawMessage err) ''Unsupported MIME type'' \<and>
    parse (rawMessage err) =
      Some (JObject [(''error'',
              JObject [(''message'', JString (''Unsupported MIME type: '' @ mime))])]) \<and>
    mime \<noteq> [] \<and> \<not> includes_str mime '': '' \<longrightarrow>
      getFriendlyErrorMessage parse err context = file_type_message mime) \<and>
   (context \<in> set handler_contexts \<longrightarrow>
      (getFriendlyErrorMessage parse err context = unsupported_format_message \<or>
       (\<exists>mimeType. getFriendlyErrorMessage parse err context = file_type_message mimeType)) =
      includes_str (rawMessage err) ''Unsupported MIME type'')"
proof -
  let ?raw = "rawMessage err"
  let ?nested = "get_prop (get_prop (parse ?raw) ''error'') ''message''"
  let ?result = "getFriendlyErrorMessage parse err context"
  have other: "\<not> includes_str ?raw ''Unsupported MIME type'' \<longrightarrow>
                 ?result = context @ ''. '' @ ?raw"
    by (simp add: getFriendlyErrorMessage_def unsupported_marker_def)
  have specific: "?result = file_type_message (mimeType_of m)"
    if "includes_str ?raw ''Unsupported MIME type''" "?nested = Some (JString m)"
      "includes_str m ''Unsupported MIME type''" for m
    using that by (simp add: getFriendlyErrorMessage_def unsupported_marker_def)
  have general: "?result = unsupported_format_message"
    if "includes_str ?raw ''Unsupported MIME type''"
      "\<forall>m. ?nested = Some (JString m) \<longrightarrow> \<not> includes_str m ''Unsupported MIME type''"
    using that
    by (simp add: getFriendlyErrorMessage_def unsupported_marker_def
          split: option.splits json.splits)
  have payload: "?result = file_type_message mime"
    if inc: "includes_str ?raw ''Unsupported MIME type''"
      and parsed: "parse ?raw =
        Some (JObject [(''error'',
                JObject [(''message'', JString (''Unsupported MIME type: '' @ mime))])])"
      and mime: "mime \<noteq> []" "\<not> includes_str mime '': ''"
  proof -
    from parsed have "?nested = Some (JString (''Unsupported MIME type: '' @ mime))" by simp
    moreover have "includes_str (''Unsupported MIME type: '' @ mime) ''Unsupported MIME type''"
      using includes_str_prefix [of "''Unsupported MIME type''" "'': '' @ mime"] by simp
    ultimately have "?result = file_type_message (mimeType_of (''Unsupported MIME type: '' @ mime))"
      using inc by (rule specific [rotated])
    with mimeType_of_canonical [OF mime] show ?thesis by simp
  qed
  have either: "?result = unsupported_format_message \<or> (\<exists>mimeType. ?result = file_type_message mimeType)"
    if "includes_str ?raw ''Unsupported MIME type''"
    using that specific general by blast
  have exactly: "(?result = unsupported_format_message \<or> (\<exists>mimeType. ?result = file_type_message mimeType)) =
                 includes_str ?raw ''Unsupported MIME type''"
    if "context \<in> set handler_contexts"
    using that other either template_not_unsupported [of "context" ?raw] by metis
  from other specific general payload exactly show ?thesis by blast
qed

theorem friendly_error_message_witness:
  "\<not> includes_str (rawMessage (ErrorObject ''quota exceeded'')) ''Unsupported MIME type'' \<and>
   getFriendlyErrorMessage parse_example (ErrorObject ''quota exceeded'') ''Failed to apply garment'' =
     ''Failed to apply garment. quota exceeded'' \<and>
   includes_str (rawMessage (ErrorObject wrapped_payload)) ''Unsupported MIME type'' \<and>
   ''image/avif'' \<noteq> [] \<and> \<not> includes_str ''image/avif'' '': '' \<and>
   ''Failed to change color'' \<in> set handler_contexts \<and>
   getFriendlyErrorMessage parse_example (ErrorObject wrapped_payload) ''Failed to change color'' =
     file_type_message ''image/avif'' \<and>
   includes_str (rawMessage (StringValue ''Unsupported MIME type: image/gif'')) ''Unsupported MIME type'' \<and>
   getFriendlyErrorMessage parse_example (StringValue ''Unsupported MIME type: image/gif'')
       ''Failed to change pose'' = unsupported_format_message"
proof -
  have a: "\<not> includes_str (rawMessage (ErrorObject ''quota exceeded'')) ''Unsupported MIME type''"
    by (simp add: rawMessage_def)
  have b: "includes_str (rawMessage (ErrorObject wrapped_payload)) ''Unsupported MIME type''"
    by (simp add: rawMessage_def wrapped_payload_def)
  have c: "parse_example (rawMessage (ErrorObject wrapped_payload)) =
             Some (JObject [(''error'',
                     JObject [(''message'', JString (''Unsupported MIME type: '' @ ''image/avif''))])])"
    by (simp add: rawMessage_def parse_example_def)
  have d: "''image/avif'' \<noteq> []" "\<not> includes_str ''image/avif'' '': ''" by simp_all
  have e: "includes_str (rawMessage (StringValue ''Unsupported MIME type: image/gif''))
             ''Unsupported MIME type''"
    by (simp add: rawMessage_def)
  have f: "\<forall>m. get_prop (get_prop
                  (parse_example (rawMessage (StringValue ''Unsupported MIME type: image/gif'')))
                  ''error'') ''message'' = Some (JString m) \<longrightarrow>
               \<not> includes_str m ''Unsupported MIME type''"
    by (simp add: rawMessage_def parse_example_def wrapped_payload_def)
  have g: "''Failed to change color'' \<in> set handler_contexts"
    by (simp add: handler_contexts_def)
  from friendly_error_message
         [of "ErrorObject ''quota exceeded''" parse_example "''Failed to apply garment''"] a
  have r1: "getFriendlyErrorMessage parse_example (ErrorObject ''quota exceeded'')
              ''Failed to apply garment'' = ''Failed to apply garment. quota exceeded''"
    by (simp add: rawMessage_def)
  from friendly_error_message
         [of "ErrorObject wrapped_payload" parse_example _ "''Failed to change color''" "''image/avif''"]
       b c d
  have r2: "getFriendlyErrorMessage parse_example (ErrorObject wrapped_payload)
              ''Failed to change color'' = file_type_message ''image/avif''"
    by blast
  from friendly_error_message
         [of "StringValue ''Unsupported MIME type: image/gif''" parse_example _ "''Failed to change pose''"]
       e f
  have r3: "getFriendlyErrorMessage parse_example (StringValue ''Unsupported MIME type: image/gif'')
              ''Failed to change pose'' = unsupported_format_message"
    by blast
  from a b d e g r1 r2 r3 show ?thesis by simp
qed


end
